theory Spec2Isabelle
  imports Main
begin

section \<open>Data model of src/groupby/groupby.cuh\<close>

text \<open>
  The declarations of \<^verbatim>\<open>gdf/gdf.h\<close>, \<^verbatim>\<open>cuda_runtime.h\<close> and of the two headers under
  \<^verbatim>\<open>hash/\<close> are not part of the source file; the types below give the part of them that
  \<^verbatim>\<open>groupby.cuh\<close> uses.
\<close>

text \<open>
  Modelled from the spec: the enumeration \<^verbatim>\<open>gdf_dtype\<close> of \<^verbatim>\<open>gdf/gdf.h\<close>. The six
  enumerators the switches of the source name are constructors; every other tag of the
  enumeration is \<open>GDF_OTHER k\<close>.
\<close>

datatype gdf_dtype =
  GDF_INT8 | GDF_INT16 | GDF_INT32 | GDF_INT64 | GDF_FLOAT32 | GDF_FLOAT64 | GDF_OTHER nat

text \<open>
  Modelled from the spec: the enumerators of \<^verbatim>\<open>gdf_error\<close> (\<^verbatim>\<open>gdf/gdf.h\<close>) that the
  source returns.
\<close>

datatype gdf_error =
  GDF_SUCCESS | GDF_CUDA_ERROR | GDF_UNSUPPORTED_DTYPE | GDF_GROUPBY_TOO_MANY_COLUMNS

text \<open>
  The status of a CUDA runtime call (\<^verbatim>\<open>cuda_runtime.h\<close>): the source only compares it
  with \<^verbatim>\<open>cudaSuccess\<close>.
\<close>

datatype cudaError = cudaSuccess | cudaErrorOther nat

text \<open>
  The C element types the templates are instantiated with; \<^verbatim>\<open>size_t\<close> is
  \<^verbatim>\<open>uint64_t\<close> (LP64), which is what lets \<^verbatim>\<open>create_gdf_column<size_t>\<close> pass the chain
  of \<^verbatim>\<open>std::is_same\<close> tests.
\<close>

datatype ctype =
  int8_t | uint8_t | int16_t | uint16_t | int32_t | uint32_t | int64_t | uint64_t
  | float_t | double_t

abbreviation size_t :: ctype where
  "size_t \<equiv> uint64_t"

text \<open>
  Modelled from the spec: the aggregation functors of \<^verbatim>\<open>hash/aggregation_operations.cuh\<close>
  that instantiate the template parameter \<^verbatim>\<open>op\<close> (AVG has no functor: it is composed).
\<close>

datatype agg_op = count_op | sum_op | min_op | max_op

text \<open>
  A \<^verbatim>\<open>gdf_column\<close>: \<open>data\<close> is the device pointer, \<open>size_field\<close> the member
  \<^verbatim>\<open>size\<close>, \<open>valid\<close> the validity-mask pointer (\<open>None\<close> is \<^verbatim>\<open>nullptr\<close>). The member
  \<^verbatim>\<open>dtype_info\<close> is written once and never read, and is left out.
\<close>

record gdf_column =
  data :: nat
  size_field :: nat
  dtype :: gdf_dtype
  valid :: "nat option"

text \<open>
  An element of a device buffer is an integer (a floating-point element is held as its
  encoding); \<open>None\<close> is the indeterminate content of memory that was allocated and never
  written. Device memory maps a pointer to the elements of the buffer that starts there.
\<close>

type_synonym cell = "int option"

type_synonym memory = "nat \<Rightarrow> cell list"

text \<open>The arguments of one call of the external primitive \<^verbatim>\<open>GroupbyHash\<close>.\<close>

record hash_call =
  groupby_type :: ctype
  aggregation_type :: ctype
  op_type :: agg_op
  in_group_col :: nat
  in_agg_col :: nat
  in_size :: nat
  out_group_col :: nat
  out_agg_col :: nat
  sort_flag :: bool

text \<open>What ran on the compute backend: a hash aggregation, or the element-wise transform.\<close>

datatype launch = GroupbyHash_launch hash_call | transform_launch ctype ctype nat

text \<open>
  The state of the device: memory contents, the next pointer \<^verbatim>\<open>cudaMalloc\<close> hands out,
  the pointers allocated and the pointers freed (in call order), and the launches made.
\<close>

record device =
  mem :: memory
  brk :: nat
  allocated :: "nat list"
  freed :: "nat list"
  launches :: "launch list"

text \<open>
  The external primitive \<^verbatim>\<open>GroupbyHash\<close> of \<^verbatim>\<open>hash/groupby_compute_api.h\<close> is a
  parameter of the model: from its arguments and the device state it gives its status, the
  value it stores through \<^verbatim>\<open>&out_size\<close>, and the memory it leaves.
\<close>

type_synonym backend = "hash_call \<Rightarrow> device \<Rightarrow> cudaError \<times> nat \<times> memory"

text \<open>
  The ways a call ends without returning a \<^verbatim>\<open>gdf_error\<close>: a failed \<^verbatim>\<open>assert\<close>
  aborts the program; a read or write outside an array or buffer, an integer division by
  zero and an overflowing signed division are undefined behaviour, after which the model
  says nothing more.
\<close>

datatype fault = AssertionFailure | OutOfBounds | DivisionByZero | SignedOverflow

text \<open>
  A call returns its error code together with the objects it may have written through its
  pointer arguments (the output group-by columns, the output aggregation column) and the
  device state; the input columns are only read. The columns passed to one call are taken
  to be distinct objects.
\<close>

type_synonym call_result = "fault + (gdf_error \<times> gdf_column list \<times> gdf_column \<times> device)"

section \<open>The single-pass aggregation and its two dispatch levels\<close>

text \<open>
  \<^verbatim>\<open>dispatched_groupby\<close> (lines 41--75). \<^verbatim>\<open>in_groupby_columns[0]\<close> and
  \<^verbatim>\<open>out_groupby_columns[0]\<close> are read whatever \<open>ncols\<close> is; the lists are the arrays the
  caller passed, and an empty one has no first entry. \<open>out_size\<close> is a local of the callee:
  it reaches the columns only after the status test.
\<close>

definition dispatched_groupby ::
  "backend \<Rightarrow> ctype \<Rightarrow> ctype \<Rightarrow> agg_op \<Rightarrow> int \<Rightarrow> gdf_column list \<Rightarrow> gdf_column \<Rightarrow>
   gdf_column list \<Rightarrow> gdf_column \<Rightarrow> bool \<Rightarrow> device \<Rightarrow> call_result" where
  "dispatched_groupby GroupbyHash groupby_t aggregation_t op ncols in_groupby_columns
     in_aggregation_column out_groupby_columns out_aggregation_column sort_result dev =
   (case in_groupby_columns of
      [] \<Rightarrow> Inl OutOfBounds
    | in0 # _ \<Rightarrow>
     (case out_groupby_columns of
        [] \<Rightarrow> Inl OutOfBounds
      | out0 # out_rest \<Rightarrow>
        let call = \<lparr> groupby_type = groupby_t, aggregation_type = aggregation_t,
                     op_type = op,
                     in_group_col = data in0, in_agg_col = data in_aggregation_column,
                     in_size = size_field in0,
                     out_group_col = data out0, out_agg_col = data out_aggregation_column,
                     sort_flag = sort_result \<rparr>;
            (status, out_size, mem') = GroupbyHash call dev;
            dev' = dev \<lparr> mem := mem', launches := launches dev @ [GroupbyHash_launch call] \<rparr>
        in if cudaSuccess \<noteq> status
           then Inr (GDF_CUDA_ERROR, out_groupby_columns, out_aggregation_column, dev')
           else Inr (GDF_SUCCESS,
                     out0 \<lparr> size_field := out_size \<rparr> # out_rest,
                     out_aggregation_column \<lparr> size_field := out_size \<rparr>,
                     dev')))"

text \<open>
  \<^verbatim>\<open>dispatch_aggregation_type\<close> (lines 90--151): the switch on
  \<open>aggregation_column_type\<close>, which is the output column's tag when the functor is
  \<^verbatim>\<open>count_op\<close> and the input aggregation column's tag otherwise. The message written to
  \<^verbatim>\<open>std::cout\<close> in the default branch is not modelled.
\<close>

definition dispatch_aggregation_type ::
  "backend \<Rightarrow> ctype \<Rightarrow> agg_op \<Rightarrow> int \<Rightarrow> gdf_column list \<Rightarrow> gdf_column \<Rightarrow>
   gdf_column list \<Rightarrow> gdf_column \<Rightarrow> bool \<Rightarrow> device \<Rightarrow> call_result" where
  "dispatch_aggregation_type GroupbyHash groupby_t op ncols in_groupby_columns
     in_aggregation_column out_groupby_columns out_aggregation_column sort_result dev =
   (let aggregation_column_type =
          (if op = count_op then dtype out_aggregation_column
           else dtype in_aggregation_column)
    in case aggregation_column_type of
         GDF_INT8 \<Rightarrow> dispatched_groupby GroupbyHash groupby_t int8_t op ncols
           in_groupby_columns in_aggregation_column out_groupby_columns
           out_aggregation_column sort_result dev
       | GDF_INT16 \<Rightarrow> dispatched_groupby GroupbyHash groupby_t int16_t op ncols
           in_groupby_columns in_aggregation_column out_groupby_columns
           out_aggregation_column sort_result dev
       | GDF_INT32 \<Rightarrow> dispatched_groupby GroupbyHash groupby_t int32_t op ncols
           in_groupby_columns in_aggregation_column out_groupby_columns
           out_aggregation_column sort_result dev
       | GDF_INT64 \<Rightarrow> dispatched_groupby GroupbyHash groupby_t int64_t op ncols
           in_groupby_columns in_aggregation_column out_groupby_columns
           out_aggregation_column sort_result dev
       | GDF_FLOAT32 \<Rightarrow> dispatched_groupby GroupbyHash groupby_t float_t op ncols
           in_groupby_columns in_aggregation_column out_groupby_columns
           out_aggregation_column sort_result dev
       | GDF_FLOAT64 \<Rightarrow> dispatched_groupby GroupbyHash groupby_t double_t op ncols
           in_groupby_columns in_aggregation_column out_groupby_columns
           out_aggregation_column sort_result dev
       | GDF_OTHER _ \<Rightarrow>
           Inr (GDF_UNSUPPORTED_DTYPE, out_groupby_columns, out_aggregation_column, dev))"

text \<open>
  \<^verbatim>\<open>dispatch_groupby_type\<close> (lines 161--212): reads \<^verbatim>\<open>in_groupby_columns[0]->dtype\<close>
  first, then switches on it. The floating-point tags take the integer instantiation of
  the same width.
\<close>

definition dispatch_groupby_type ::
  "backend \<Rightarrow> agg_op \<Rightarrow> int \<Rightarrow> gdf_column list \<Rightarrow> gdf_column \<Rightarrow>
   gdf_column list \<Rightarrow> gdf_column \<Rightarrow> bool \<Rightarrow> device \<Rightarrow> call_result" where
  "dispatch_groupby_type GroupbyHash op ncols in_groupby_columns in_aggregation_column
     out_groupby_columns out_aggregation_column sort_result dev =
   (case in_groupby_columns of
      [] \<Rightarrow> Inl OutOfBounds
    | in0 # _ \<Rightarrow>
     (case dtype in0 of
        GDF_INT8 \<Rightarrow> dispatch_aggregation_type GroupbyHash int8_t op ncols
          in_groupby_columns in_aggregation_column out_groupby_columns
          out_aggregation_column sort_result dev
      | GDF_INT16 \<Rightarrow> dispatch_aggregation_type GroupbyHash int16_t op ncols
          in_groupby_columns in_aggregation_column out_groupby_columns
          out_aggregation_column sort_result dev
      | GDF_INT32 \<Rightarrow> dispatch_aggregation_type GroupbyHash int32_t op ncols
          in_groupby_columns in_aggregation_column out_groupby_columns
          out_aggregation_column sort_result dev
      | GDF_INT64 \<Rightarrow> dispatch_aggregation_type GroupbyHash int64_t op ncols
          in_groupby_columns in_aggregation_column out_groupby_columns
          out_aggregation_column sort_result dev
      | GDF_FLOAT32 \<Rightarrow> dispatch_aggregation_type GroupbyHash int32_t op ncols
          in_groupby_columns in_aggregation_column out_groupby_columns
          out_aggregation_column sort_result dev
      | GDF_FLOAT64 \<Rightarrow> dispatch_aggregation_type GroupbyHash int64_t op ncols
          in_groupby_columns in_aggregation_column out_groupby_columns
          out_aggregation_column sort_result dev
      | GDF_OTHER _ \<Rightarrow>
          Inr (GDF_UNSUPPORTED_DTYPE, out_groupby_columns, out_aggregation_column, dev)))"

text \<open>
  \<^verbatim>\<open>gdf_group_by_hash\<close> (lines 229--246): the column-count test, then the dispatch. The
  message written to \<^verbatim>\<open>std::cerr\<close> is not modelled.
\<close>

definition gdf_group_by_hash ::
  "backend \<Rightarrow> agg_op \<Rightarrow> int \<Rightarrow> gdf_column list \<Rightarrow> gdf_column \<Rightarrow>
   gdf_column list \<Rightarrow> gdf_column \<Rightarrow> bool \<Rightarrow> device \<Rightarrow> call_result" where
  "gdf_group_by_hash GroupbyHash aggregation_operation ncols in_groupby_columns
     in_aggregation_column out_groupby_columns out_aggregation_column sort_result dev =
   (if ncols > 1
    then Inr (GDF_GROUPBY_TOO_MANY_COLUMNS, out_groupby_columns, out_aggregation_column, dev)
    else dispatch_groupby_type GroupbyHash aggregation_operation ncols in_groupby_columns
           in_aggregation_column out_groupby_columns out_aggregation_column sort_result dev)"

section \<open>Intermediate columns and the element-wise average\<close>

text \<open>
  \<^verbatim>\<open>cudaMalloc\<close> and \<^verbatim>\<open>cudaFree\<close> as the source uses them: the status of neither is
  read, so the allocation is taken to succeed. The new buffer has \<open>n\<close> elements of
  indeterminate content.
\<close>

definition cudaMalloc :: "nat \<Rightarrow> device \<Rightarrow> nat \<times> device" where
  "cudaMalloc n dev =
     (brk dev,
      dev \<lparr> mem := (mem dev)(brk dev := replicate n None),
            brk := Suc (brk dev),
            allocated := allocated dev @ [brk dev] \<rparr>)"

definition cudaFree :: "nat \<Rightarrow> device \<Rightarrow> device" where
  "cudaFree p dev = dev \<lparr> freed := freed dev @ [p] \<rparr>"

text \<open>
  \<^verbatim>\<open>create_gdf_column\<close> (lines 258--289). The last \<^verbatim>\<open>else\<close> of the chain is
  \<^verbatim>\<open>assert(false)\<close>; none of the ten element types reaches it.
\<close>

definition create_gdf_column :: "ctype \<Rightarrow> nat \<Rightarrow> device \<Rightarrow> fault + (gdf_column \<times> device)" where
  "create_gdf_column col_type size_arg dev =
     (case (if col_type = int8_t then Some GDF_INT8
            else if col_type = uint8_t then Some GDF_INT8
            else if col_type = int16_t then Some GDF_INT16
            else if col_type = uint16_t then Some GDF_INT16
            else if col_type = int32_t then Some GDF_INT32
            else if col_type = uint32_t then Some GDF_INT32
            else if col_type = int64_t then Some GDF_INT64
            else if col_type = uint64_t then Some GDF_INT64
            else if col_type = float_t then Some GDF_FLOAT32
            else if col_type = double_t then Some GDF_FLOAT64
            else None) of
        None \<Rightarrow> Inl AssertionFailure
      | Some gdf_col_type \<Rightarrow>
          let (p, dev') = cudaMalloc size_arg dev
          in Inr (\<lparr> data = p, size_field = size_arg, dtype = gdf_col_type, valid = None \<rparr>, dev'))"

text \<open>Width in bits of an element type, and the values a stored integer has when read at it.\<close>

fun bits :: "ctype \<Rightarrow> nat" where
  "bits int8_t = 8" | "bits uint8_t = 8"
| "bits int16_t = 16" | "bits uint16_t = 16"
| "bits int32_t = 32" | "bits uint32_t = 32"
| "bits int64_t = 64" | "bits uint64_t = 64"
| "bits float_t = 32" | "bits double_t = 64"

definition is_floating :: "ctype \<Rightarrow> bool" where
  "is_floating t = (t = float_t \<or> t = double_t)"

definition is_unsigned :: "ctype \<Rightarrow> bool" where
  "is_unsigned t = (t = uint8_t \<or> t = uint16_t \<or> t = uint32_t \<or> t = uint64_t)"

definition to_signed :: "nat \<Rightarrow> int \<Rightarrow> int" where
  "to_signed w x = (x + 2 ^ (w - 1)) mod 2 ^ w - 2 ^ (w - 1)"

definition to_unsigned :: "nat \<Rightarrow> int \<Rightarrow> int" where
  "to_unsigned w x = x mod 2 ^ w"

text \<open>Conversion of an integer value to an integer element type: reduction modulo \<open>2^w\<close>.\<close>

definition convert :: "ctype \<Rightarrow> int \<Rightarrow> int" where
  "convert t x =
     (if is_floating t then x
      else if is_unsigned t then to_unsigned (bits t) x
      else to_signed (bits t) x)"

text \<open>The quotient of C's \<^verbatim>\<open>/\<close> on integers, which rounds toward zero.\<close>

definition c_div :: "int \<Rightarrow> int \<Rightarrow> int" where
  "c_div a b = sgn a * sgn b * (\<bar>a\<bar> div \<bar>b\<bar>)"

text \<open>
  Floating-point arithmetic is not modelled: where the sum type or the average type is
  \<^verbatim>\<open>float\<close> or \<^verbatim>\<open>double\<close>, the value of the lambda is given by a parameter, a function
  of the two types, the stored sum and the count.
\<close>

type_synonym fp_arith = "ctype \<Rightarrow> ctype \<Rightarrow> int \<Rightarrow> int \<Rightarrow> int"

text \<open>
  The lambda \<^verbatim>\<open>average_op\<close> of \<^verbatim>\<open>compute_average\<close> (line 313):
  \<^verbatim>\<open>sum / static_cast<avg_type>(count)\<close>, returned as \<^verbatim>\<open>avg_type\<close>. The count is read as
  \<^verbatim>\<open>size_t\<close> and converted to the average type; on integer types the division is done in
  the common type of the two operands after promotion (32 bits, or 64 when one of them is
  \<^verbatim>\<open>int64_t\<close>), and the quotient is converted to the average type. An indeterminate
  operand gives an indeterminate result. The sum type and the average type range over the
  six types of the switches.
\<close>

definition average_op :: "fp_arith \<Rightarrow> ctype \<Rightarrow> ctype \<Rightarrow> cell \<Rightarrow> cell \<Rightarrow> fault + cell" where
  "average_op fp sum_type avg_type sum_v count_v =
     (case sum_v of
        None \<Rightarrow> Inr None
      | Some s \<Rightarrow>
       (case count_v of
          None \<Rightarrow> Inr None
        | Some c \<Rightarrow>
            let n = convert size_t c
            in if is_floating sum_type \<or> is_floating avg_type
               then Inr (Some (fp sum_type avg_type s n))
               else
                 let a = convert sum_type s;
                     d = convert avg_type n;
                     w = max 32 (max (bits sum_type) (bits avg_type))
                 in if d = 0 then Inl DivisionByZero
                    else if a = - (2 ^ (w - 1)) \<and> d = - 1 then Inl SignedOverflow
                    else Inr (Some (convert avg_type (c_div a d)))))"

text \<open>
  \<^verbatim>\<open>thrust::transform\<close> with a binary operation over two ranges of the same length; a
  fault of the operation at any element is a fault of the transform.
\<close>

fun thrust_transform :: "('a \<Rightarrow> 'b \<Rightarrow> fault + 'c) \<Rightarrow> 'a list \<Rightarrow> 'b list \<Rightarrow> fault + 'c list" where
  "thrust_transform f (x # xs) (y # ys) =
     (case f x y of
        Inl e \<Rightarrow> Inl e
      | Inr z \<Rightarrow> (case thrust_transform f xs ys of Inl e \<Rightarrow> Inl e | Inr zs \<Rightarrow> Inr (z # zs)))"
| "thrust_transform f _ _ = Inr []"

text \<open>
  \<^verbatim>\<open>compute_average\<close> (lines 303--320): the ranges are the first \<open>output_size\<close> elements
  of the three buffers, \<open>output_size\<close> being the size member of the COUNT column; a range
  that is longer than its buffer is a read or write out of bounds.
\<close>

definition compute_average ::
  "fp_arith \<Rightarrow> ctype \<Rightarrow> ctype \<Rightarrow> gdf_column \<Rightarrow> gdf_column \<Rightarrow> gdf_column \<Rightarrow> device \<Rightarrow>
   fault + (gdf_column \<times> device)" where
  "compute_average fp sum_type avg_type avg_column count_column sum_column dev =
     (let output_size = size_field count_column;
          d_sums = mem dev (data sum_column);
          d_counts = mem dev (data count_column);
          d_avg = mem dev (data avg_column)
      in if length d_sums < output_size \<or> length d_counts < output_size
              \<or> length d_avg < output_size
         then Inl OutOfBounds
         else
          (case thrust_transform (average_op fp sum_type avg_type)
                  (take output_size d_sums) (take output_size d_counts) of
             Inl e \<Rightarrow> Inl e
           | Inr avgs \<Rightarrow>
               Inr (avg_column \<lparr> size_field := output_size \<rparr>,
                    dev \<lparr> mem := (mem dev)(data avg_column := avgs @ drop output_size d_avg),
                          launches := launches dev
                                      @ [transform_launch sum_type avg_type output_size] \<rparr>)))"

section \<open>The average as two passes\<close>

text \<open>
  \<^verbatim>\<open>multi_pass_avg\<close> (lines 337--378). The value returned by each of the two calls of
  \<^verbatim>\<open>gdf_group_by_hash\<close> is discarded, as in the source; the default branch of the switch
  on the output type returns before the two \<^verbatim>\<open>cudaFree\<close> calls.
\<close>

definition multi_pass_avg ::
  "backend \<Rightarrow> fp_arith \<Rightarrow> ctype \<Rightarrow> int \<Rightarrow> gdf_column list \<Rightarrow> gdf_column \<Rightarrow>
   gdf_column list \<Rightarrow> gdf_column \<Rightarrow> device \<Rightarrow> call_result" where
  "multi_pass_avg GroupbyHash fp sum_type ncols in_groupby_columns in_aggregation_column
     out_groupby_columns out_aggregation_column dev =
   (let output_size = size_field out_aggregation_column;
        sort_result = True
    in case create_gdf_column size_t output_size dev of
         Inl e \<Rightarrow> Inl e
       | Inr (count_output0, dev1) \<Rightarrow>
      (case gdf_group_by_hash GroupbyHash count_op ncols in_groupby_columns
              in_aggregation_column out_groupby_columns count_output0 sort_result dev1 of
         Inl e \<Rightarrow> Inl e
       | Inr (_, out_groupby_columns1, count_output, dev2) \<Rightarrow>
      (case create_gdf_column sum_type output_size dev2 of
         Inl e \<Rightarrow> Inl e
       | Inr (sum_output0, dev3) \<Rightarrow>
      (case gdf_group_by_hash GroupbyHash sum_op ncols in_groupby_columns
              in_aggregation_column out_groupby_columns1 sum_output0 sort_result dev3 of
         Inl e \<Rightarrow> Inl e
       | Inr (_, out_groupby_columns2, sum_output, dev4) \<Rightarrow>
      (case (case dtype out_aggregation_column of
               GDF_INT8 \<Rightarrow> Some (compute_average fp sum_type int8_t
                                   out_aggregation_column count_output sum_output dev4)
             | GDF_INT16 \<Rightarrow> Some (compute_average fp sum_type int16_t
                                   out_aggregation_column count_output sum_output dev4)
             | GDF_INT32 \<Rightarrow> Some (compute_average fp sum_type int32_t
                                   out_aggregation_column count_output sum_output dev4)
             | GDF_INT64 \<Rightarrow> Some (compute_average fp sum_type int64_t
                                   out_aggregation_column count_output sum_output dev4)
             | GDF_FLOAT32 \<Rightarrow> Some (compute_average fp sum_type float_t
                                   out_aggregation_column count_output sum_output dev4)
             | GDF_FLOAT64 \<Rightarrow> Some (compute_average fp sum_type double_t
                                   out_aggregation_column count_output sum_output dev4)
             | GDF_OTHER _ \<Rightarrow> None) of
         None \<Rightarrow> Inr (GDF_UNSUPPORTED_DTYPE, out_groupby_columns2,
                      out_aggregation_column, dev4)
       | Some (Inl e) \<Rightarrow> Inl e
       | Some (Inr (avg_column, dev5)) \<Rightarrow>
           Inr (GDF_SUCCESS, out_groupby_columns2, avg_column,
                cudaFree (data sum_output) (cudaFree (data count_output) dev5)))))))"

text \<open>
  \<^verbatim>\<open>gdf_group_by_hash_avg\<close> (lines 394--416). The \<^verbatim>\<open>assert\<close> is compiled out when
  \<^verbatim>\<open>NDEBUG\<close> is defined; \<open>ndebug\<close> says whether it is.
\<close>

definition gdf_group_by_hash_avg ::
  "bool \<Rightarrow> backend \<Rightarrow> fp_arith \<Rightarrow> int \<Rightarrow> gdf_column list \<Rightarrow> gdf_column \<Rightarrow>
   gdf_column list \<Rightarrow> gdf_column \<Rightarrow> device \<Rightarrow> call_result" where
  "gdf_group_by_hash_avg ndebug GroupbyHash fp ncols in_groupby_columns
     in_aggregation_column out_groupby_columns out_aggregation_column dev =
   (if (if ndebug then False else ncols \<noteq> 1) then Inl AssertionFailure
    else case dtype in_aggregation_column of
        GDF_INT8 \<Rightarrow> multi_pass_avg GroupbyHash fp int8_t ncols in_groupby_columns
          in_aggregation_column out_groupby_columns out_aggregation_column dev
      | GDF_INT16 \<Rightarrow> multi_pass_avg GroupbyHash fp int16_t ncols in_groupby_columns
          in_aggregation_column out_groupby_columns out_aggregation_column dev
      | GDF_INT32 \<Rightarrow> multi_pass_avg GroupbyHash fp int32_t ncols in_groupby_columns
          in_aggregation_column out_groupby_columns out_aggregation_column dev
      | GDF_INT64 \<Rightarrow> multi_pass_avg GroupbyHash fp int64_t ncols in_groupby_columns
          in_aggregation_column out_groupby_columns out_aggregation_column dev
      | GDF_FLOAT32 \<Rightarrow> multi_pass_avg GroupbyHash fp float_t ncols in_groupby_columns
          in_aggregation_column out_groupby_columns out_aggregation_column dev
      | GDF_FLOAT64 \<Rightarrow> multi_pass_avg GroupbyHash fp double_t ncols in_groupby_columns
          in_aggregation_column out_groupby_columns out_aggregation_column dev
      | GDF_OTHER _ \<Rightarrow>
          Inr (GDF_UNSUPPORTED_DTYPE, out_groupby_columns, out_aggregation_column, dev))"

section \<open>Reading a result\<close>

definition raised :: "call_result \<Rightarrow> fault option" where
  "raised r = (case r of Inl f \<Rightarrow> Some f | Inr _ \<Rightarrow> None)"

definition returned_code :: "call_result \<Rightarrow> gdf_error option" where
  "returned_code r = (case r of Inl _ \<Rightarrow> None | Inr (e, _, _, _) \<Rightarrow> Some e)"

definition returned_groupby_columns :: "call_result \<Rightarrow> gdf_column list option" where
  "returned_groupby_columns r = (case r of Inl _ \<Rightarrow> None | Inr (_, cols, _, _) \<Rightarrow> Some cols)"

definition returned_aggregation_column :: "call_result \<Rightarrow> gdf_column option" where
  "returned_aggregation_column r = (case r of Inl _ \<Rightarrow> None | Inr (_, _, col, _) \<Rightarrow> Some col)"

definition returned_device :: "call_result \<Rightarrow> device option" where
  "returned_device r = (case r of Inl _ \<Rightarrow> None | Inr (_, _, _, dev) \<Rightarrow> Some dev)"

definition returned_launches :: "call_result \<Rightarrow> launch list option" where
  "returned_launches r = map_option launches (returned_device r)"

definition returned_allocated :: "call_result \<Rightarrow> nat list option" where
  "returned_allocated r = map_option allocated (returned_device r)"

definition returned_freed :: "call_result \<Rightarrow> nat list option" where
  "returned_freed r = map_option freed (returned_device r)"

text \<open>The element type each of the two six-way switches on an aggregation tag instantiates.\<close>

fun ctype_of_dtype :: "gdf_dtype \<Rightarrow> ctype option" where
  "ctype_of_dtype GDF_INT8 = Some int8_t"
| "ctype_of_dtype GDF_INT16 = Some int16_t"
| "ctype_of_dtype GDF_INT32 = Some int32_t"
| "ctype_of_dtype GDF_INT64 = Some int64_t"
| "ctype_of_dtype GDF_FLOAT32 = Some float_t"
| "ctype_of_dtype GDF_FLOAT64 = Some double_t"
| "ctype_of_dtype (GDF_OTHER _) = None"


text \<open>The instantiation the first switch makes for a key tag.\<close>

fun groupby_ctype_of_dtype :: "gdf_dtype \<Rightarrow> ctype option" where
  "groupby_ctype_of_dtype GDF_INT8 = Some int8_t"
| "groupby_ctype_of_dtype GDF_INT16 = Some int16_t"
| "groupby_ctype_of_dtype GDF_INT32 = Some int32_t"
| "groupby_ctype_of_dtype GDF_INT64 = Some int64_t"
| "groupby_ctype_of_dtype GDF_FLOAT32 = Some int32_t"
| "groupby_ctype_of_dtype GDF_FLOAT64 = Some int64_t"
| "groupby_ctype_of_dtype (GDF_OTHER _) = None"

text \<open>The arguments \<^verbatim>\<open>dispatched_groupby\<close> passes to the primitive.\<close>

definition hash_call_of ::
  "ctype \<Rightarrow> ctype \<Rightarrow> agg_op \<Rightarrow> gdf_column \<Rightarrow> gdf_column \<Rightarrow> gdf_column \<Rightarrow> gdf_column \<Rightarrow> bool
   \<Rightarrow> hash_call" where
  "hash_call_of groupby_t aggregation_t op in0 in_aggregation_column out0
     out_aggregation_column sort_result =
   \<lparr> groupby_type = groupby_t, aggregation_type = aggregation_t, op_type = op,
     in_group_col = data in0, in_agg_col = data in_aggregation_column,
     in_size = size_field in0,
     out_group_col = data out0, out_agg_col = data out_aggregation_column,
     sort_flag = sort_result \<rparr>"

text \<open>The device after a call of the primitive.\<close>

definition after_call :: "backend \<Rightarrow> hash_call \<Rightarrow> device \<Rightarrow> device" where
  "after_call GroupbyHash call dev =
     dev \<lparr> mem := snd (snd (GroupbyHash call dev)),
           launches := launches dev @ [GroupbyHash_launch call] \<rparr>"

text \<open>The tag \<^verbatim>\<open>create_gdf_column\<close> deduces for an element type, and the column it builds.\<close>

fun dtype_of_ctype :: "ctype \<Rightarrow> gdf_dtype" where
  "dtype_of_ctype int8_t = GDF_INT8" | "dtype_of_ctype uint8_t = GDF_INT8"
| "dtype_of_ctype int16_t = GDF_INT16" | "dtype_of_ctype uint16_t = GDF_INT16"
| "dtype_of_ctype int32_t = GDF_INT32" | "dtype_of_ctype uint32_t = GDF_INT32"
| "dtype_of_ctype int64_t = GDF_INT64" | "dtype_of_ctype uint64_t = GDF_INT64"
| "dtype_of_ctype float_t = GDF_FLOAT32" | "dtype_of_ctype double_t = GDF_FLOAT64"

definition fresh_column :: "gdf_dtype \<Rightarrow> nat \<Rightarrow> device \<Rightarrow> gdf_column" where
  "fresh_column t k dev = \<lparr> data = brk dev, size_field = k, dtype = t, valid = None \<rparr>"

section \<open>Test doubles\<close>

text \<open>A backend on which every call of the primitive fails and leaves memory as it was.\<close>

definition failing_GroupbyHash :: backend where
  "failing_GroupbyHash call dev = (cudaErrorOther 2, 0, mem dev)"

text \<open>
  Modelled from the spec: \<^verbatim>\<open>HashAggregate\<close> of \<section>6, the primitive behind
  \<^verbatim>\<open>GroupbyHash\<close>, whose code is not in the source file. The distinct keys of the first
  \<open>in_size\<close> rows, ascending, go to the output key buffer; the aggregate of each group's
  values goes to the output value buffer; the number of groups is reported.
\<close>

fun aggregate :: "agg_op \<Rightarrow> int list \<Rightarrow> int" where
  "aggregate count_op vs = int (length vs)"
| "aggregate sum_op vs = sum_list vs"
| "aggregate min_op vs = fold min vs (hd vs)"
| "aggregate max_op vs = fold max vs (hd vs)"

definition reference_GroupbyHash :: backend where
  "reference_GroupbyHash call dev =
     (case those (take (in_size call) (mem dev (in_group_col call))) of
        None \<Rightarrow> (cudaErrorOther 1, 0, mem dev)
      | Some ks \<Rightarrow>
       (case those (take (in_size call) (mem dev (in_agg_col call))) of
          None \<Rightarrow> (cudaErrorOther 1, 0, mem dev)
        | Some vs \<Rightarrow>
            let groups = sort (remdups ks);
                aggs = map (\<lambda>k. aggregate (op_type call)
                                   (map snd (filter (\<lambda>row. fst row = k) (zip ks vs)))) groups;
                n = length groups;
                m1 = (mem dev)(out_group_col call :=
                        map Some groups @ drop n (mem dev (out_group_col call)));
                m2 = m1(out_agg_col call := map Some aggs @ drop n (m1 (out_agg_col call)))
            in (cudaSuccess, n, m2)))"

text \<open>A backend whose first call fails and whose later calls are the reference.\<close>

definition first_call_fails :: backend where
  "first_call_fails call dev =
     (if launches dev = [] then failing_GroupbyHash call dev
      else reference_GroupbyHash call dev)"

text \<open>A backend whose second call fails and whose other calls are the reference.\<close>

definition second_call_fails :: backend where
  "second_call_fails call dev =
     (if length (launches dev) = 1 then failing_GroupbyHash call dev
      else reference_GroupbyHash call dev)"

text \<open>Floating-point arithmetic of the test doubles (no test below reaches it).\<close>

definition fp_stub :: fp_arith where
  "fp_stub sum_type avg_type s n = 0"

text \<open>
  The request of \<section>8: keys \<open>[1, 1, 2]\<close> at pointer 0, values \<open>[4, 6, 10]\<close> at pointer 1,
  an output key buffer at pointer 2 and an output value buffer at pointer 3, each of
  capacity 3.
\<close>

definition test_device :: device where
  "test_device =
     \<lparr> mem = ((\<lambda>_. [])(0 := [Some 1, Some 1, Some 2], 1 := [Some 4, Some 6, Some 10],
                         2 := [None, None, None], 3 := [None, None, None])),
       brk = 4, allocated = [], freed = [], launches = [] \<rparr>"

definition column_at :: "nat \<Rightarrow> nat \<Rightarrow> gdf_dtype \<Rightarrow> gdf_column" where
  "column_at p n t = \<lparr> data = p, size_field = n, dtype = t, valid = None \<rparr>"

text \<open>256 rows with the one key 7 and the value 1; output buffers of capacity 256.\<close>

definition wide_group_device :: device where
  "wide_group_device =
     \<lparr> mem = ((\<lambda>_. [])(0 := replicate 256 (Some 7), 1 := replicate 256 (Some 1),
                         2 := replicate 256 None, 3 := replicate 256 None)),
       brk = 4, allocated = [], freed = [], launches = [] \<rparr>"

section \<open>The calls in normal form\<close>

lemma dispatched_groupby_eq:
  "dispatched_groupby B gt at op n igs ia ogs oa sr dev =
   (case igs of [] \<Rightarrow> Inl OutOfBounds | in0 # _ \<Rightarrow>
    (case ogs of [] \<Rightarrow> Inl OutOfBounds | out0 # orest \<Rightarrow>
      let call = hash_call_of gt at op in0 ia out0 oa sr in
      if fst (B call dev) = cudaSuccess
      then Inr (GDF_SUCCESS, out0 \<lparr> size_field := fst (snd (B call dev)) \<rparr> # orest,
                oa \<lparr> size_field := fst (snd (B call dev)) \<rparr>, after_call B call dev)
      else Inr (GDF_CUDA_ERROR, ogs, oa, after_call B call dev)))"
  by (auto simp: dispatched_groupby_def hash_call_of_def after_call_def Let_def
           split: list.split prod.split)

lemma dispatched_groupby_ncols:
  "dispatched_groupby B gt at op n igs ia ogs oa sr dev
   = dispatched_groupby B gt at op 1 igs ia ogs oa sr dev"
  by (simp add: dispatched_groupby_eq)

lemma dispatch_aggregation_type_eq:
  "dispatch_aggregation_type B gt op n igs ia ogs oa sr dev =
   (case ctype_of_dtype (if op = count_op then dtype oa else dtype ia) of
      None \<Rightarrow> Inr (GDF_UNSUPPORTED_DTYPE, ogs, oa, dev)
    | Some at \<Rightarrow> dispatched_groupby B gt at op n igs ia ogs oa sr dev)"
  by (simp add: dispatch_aggregation_type_def Let_def split: gdf_dtype.split)

lemma dispatch_groupby_type_eq:
  "dispatch_groupby_type B op n igs ia ogs oa sr dev =
   (case igs of [] \<Rightarrow> Inl OutOfBounds | in0 # _ \<Rightarrow>
    (case groupby_ctype_of_dtype (dtype in0) of
       None \<Rightarrow> Inr (GDF_UNSUPPORTED_DTYPE, ogs, oa, dev)
     | Some gt \<Rightarrow> dispatch_aggregation_type B gt op n igs ia ogs oa sr dev))"
  by (simp add: dispatch_groupby_type_def split: list.split gdf_dtype.split)

lemma gdf_group_by_hash_eq:
  "gdf_group_by_hash B op n igs ia ogs oa sr dev =
   (if n > 1 then Inr (GDF_GROUPBY_TOO_MANY_COLUMNS, ogs, oa, dev)
    else case igs of [] \<Rightarrow> Inl OutOfBounds | in0 # _ \<Rightarrow>
     (case groupby_ctype_of_dtype (dtype in0) of
        None \<Rightarrow> Inr (GDF_UNSUPPORTED_DTYPE, ogs, oa, dev)
      | Some gt \<Rightarrow>
        (case ctype_of_dtype (if op = count_op then dtype oa else dtype ia) of
           None \<Rightarrow> Inr (GDF_UNSUPPORTED_DTYPE, ogs, oa, dev)
         | Some at \<Rightarrow> dispatched_groupby B gt at op n igs ia ogs oa sr dev)))"
  by (simp add: gdf_group_by_hash_def dispatch_groupby_type_eq dispatch_aggregation_type_eq
           split: list.split option.split)



lemma launches_after_call [simp]:
  "launches (after_call B call dev) = launches dev @ [GroupbyHash_launch call]"
  by (simp add: after_call_def)

lemma after_call_fields [simp]:
  "allocated (after_call B call dev) = allocated dev"
  "freed (after_call B call dev) = freed dev"
  "brk (after_call B call dev) = brk dev"
  by (simp_all add: after_call_def)

text \<open>Every way \<^verbatim>\<open>gdf_group_by_hash\<close> returns.\<close>

lemma gdf_group_by_hash_Inr:
  assumes "gdf_group_by_hash B op n igs ia ogs oa sr dev = Inr (e, ogs', oa', dev')"
  shows "(e = GDF_GROUPBY_TOO_MANY_COLUMNS \<and> 1 < n \<and> ogs' = ogs \<and> oa' = oa \<and> dev' = dev)
       \<or> (e = GDF_UNSUPPORTED_DTYPE \<and> n \<le> 1 \<and> ogs' = ogs \<and> oa' = oa \<and> dev' = dev
           \<and> (\<exists>in0 irest. igs = in0 # irest
                \<and> (groupby_ctype_of_dtype (dtype in0) = None
                    \<or> ctype_of_dtype (if op = count_op then dtype oa else dtype ia) = None)))
       \<or> (\<exists>in0 irest out0 orest gt at call.
             n \<le> 1 \<and> igs = in0 # irest \<and> ogs = out0 # orest
           \<and> groupby_ctype_of_dtype (dtype in0) = Some gt
           \<and> ctype_of_dtype (if op = count_op then dtype oa else dtype ia) = Some at
           \<and> call = hash_call_of gt at op in0 ia out0 oa sr
           \<and> dev' = after_call B call dev
           \<and> (if fst (B call dev) = cudaSuccess
               then e = GDF_SUCCESS
                  \<and> ogs' = out0 \<lparr> size_field := fst (snd (B call dev)) \<rparr> # orest
                  \<and> oa' = oa \<lparr> size_field := fst (snd (B call dev)) \<rparr>
               else e = GDF_CUDA_ERROR \<and> ogs' = ogs \<and> oa' = oa))"
  using assms
  by (auto simp: gdf_group_by_hash_eq dispatched_groupby_eq Let_def
           split: if_splits list.splits option.splits)

lemma gdf_group_by_hash_launches:
  assumes "gdf_group_by_hash B op n igs ia ogs oa sr dev = Inr (e, ogs', oa', dev')"
  shows "\<exists>ls. launches dev' = launches dev @ ls"
  using gdf_group_by_hash_Inr [OF assms] by auto

lemma returned_launches_Inr:
  "returned_launches r = Some ls \<Longrightarrow>
   \<exists>e ogs' oa' dev'. r = Inr (e, ogs', oa', dev') \<and> launches dev' = ls"
  by (auto simp: returned_launches_def returned_device_def split: sum.splits)

lemma returned_code_Inr:
  "returned_code r = Some e \<Longrightarrow> \<exists>ogs' oa' dev'. r = Inr (e, ogs', oa', dev')"
  by (auto simp: returned_code_def split: sum.splits)

lemma returned_simps [simp]:
  "returned_code (Inr (e, ogs', oa', dev')) = Some e"
  "returned_groupby_columns (Inr (e, ogs', oa', dev')) = Some ogs'"
  "returned_aggregation_column (Inr (e, ogs', oa', dev')) = Some oa'"
  "returned_device (Inr (e, ogs', oa', dev')) = Some dev'"
  "returned_launches (Inr (e, ogs', oa', dev')) = Some (launches dev')"
  "returned_allocated (Inr (e, ogs', oa', dev')) = Some (allocated dev')"
  "returned_freed (Inr (e, ogs', oa', dev')) = Some (freed dev')"
  "raised (Inr (e, ogs', oa', dev')) = None"
  "raised (Inl f) = Some f"
  by (simp_all add: returned_code_def returned_groupby_columns_def
        returned_aggregation_column_def returned_device_def returned_launches_def
        returned_allocated_def returned_freed_def raised_def)

section \<open>The single-pass call\<close>

text \<open>
  Claim C6. Whenever \<^verbatim>\<open>gdf_group_by_hash\<close> reaches the primitive and the primitive
  reports a status other than \<^verbatim>\<open>cudaSuccess\<close>, the call returns \<^verbatim>\<open>GDF_CUDA_ERROR\<close>
  and hands back the output group-by columns and the output aggregation column exactly as
  it received them: no size member is written.
\<close>

theorem backend_failure_is_cuda_error:
  assumes "returned_launches (gdf_group_by_hash B op n igs ia ogs oa sr dev)
           = Some (launches dev @ [GroupbyHash_launch call])"
    and "fst (B call dev) \<noteq> cudaSuccess"
  shows "returned_code (gdf_group_by_hash B op n igs ia ogs oa sr dev) = Some GDF_CUDA_ERROR
       \<and> returned_groupby_columns (gdf_group_by_hash B op n igs ia ogs oa sr dev) = Some ogs
       \<and> returned_aggregation_column (gdf_group_by_hash B op n igs ia ogs oa sr dev) = Some oa"
proof -
  from returned_launches_Inr [OF assms(1)] obtain e ogs' oa' dev'
    where r: "gdf_group_by_hash B op n igs ia ogs oa sr dev = Inr (e, ogs', oa', dev')"
      and l: "launches dev' = launches dev @ [GroupbyHash_launch call]"
    by blast
  from gdf_group_by_hash_Inr [OF r] l assms(2)
  have "e = GDF_CUDA_ERROR \<and> ogs' = ogs \<and> oa' = oa"
    by (auto split: if_splits)
  with r show ?thesis by simp
qed

text \<open>The hypotheses of C6 hold for a sum over the request of \<section>8 on the failing backend.\<close>

theorem backend_failure_is_cuda_error_witness:
  "returned_launches (gdf_group_by_hash failing_GroupbyHash sum_op 1
      [column_at 0 3 GDF_INT32] (column_at 1 3 GDF_INT32)
      [column_at 2 3 GDF_INT32] (column_at 3 3 GDF_INT32) True test_device)
   = Some (launches test_device @ [GroupbyHash_launch
        (hash_call_of int32_t int32_t sum_op (column_at 0 3 GDF_INT32)
           (column_at 1 3 GDF_INT32) (column_at 2 3 GDF_INT32) (column_at 3 3 GDF_INT32)
           True)])
 \<and> fst (failing_GroupbyHash
        (hash_call_of int32_t int32_t sum_op (column_at 0 3 GDF_INT32)
           (column_at 1 3 GDF_INT32) (column_at 2 3 GDF_INT32) (column_at 3 3 GDF_INT32)
           True) test_device) \<noteq> cudaSuccess
 \<and> returned_code (gdf_group_by_hash failing_GroupbyHash sum_op 1
      [column_at 0 3 GDF_INT32] (column_at 1 3 GDF_INT32)
      [column_at 2 3 GDF_INT32] (column_at 3 3 GDF_INT32) True test_device)
   = Some GDF_CUDA_ERROR
 \<and> returned_aggregation_column (gdf_group_by_hash failing_GroupbyHash sum_op 1
      [column_at 0 3 GDF_INT32] (column_at 1 3 GDF_INT32)
      [column_at 2 3 GDF_INT32] (column_at 3 3 GDF_INT32) True test_device)
   = Some (column_at 3 3 GDF_INT32)"
proof -
  let ?call = "hash_call_of int32_t int32_t sum_op (column_at 0 3 GDF_INT32)
           (column_at 1 3 GDF_INT32) (column_at 2 3 GDF_INT32) (column_at 3 3 GDF_INT32)
           True"
  have h1: "returned_launches (gdf_group_by_hash failing_GroupbyHash sum_op 1
      [column_at 0 3 GDF_INT32] (column_at 1 3 GDF_INT32)
      [column_at 2 3 GDF_INT32] (column_at 3 3 GDF_INT32) True test_device)
   = Some (launches test_device @ [GroupbyHash_launch ?call])"
    by code_simp
  have h2: "fst (failing_GroupbyHash ?call test_device) \<noteq> cudaSuccess"
    by code_simp
  from h1 h2 backend_failure_is_cuda_error [OF h1 h2] show ?thesis by simp
qed

text \<open>
  Claim C8. The second dispatch level of \<^verbatim>\<open>gdf_group_by_hash\<close> resolves the
  instantiation from the input aggregation column's tag, except for \<^verbatim>\<open>count_op\<close>,
  where it uses the output aggregation column's tag. Whenever the primitive is launched,
  it is instantiated with the element type of that tag; whenever the column count and the
  key tag pass and that tag is one of the six, the primitive is launched with the element
  type of that tag; and whenever that tag is none of the six, the call returns
  \<^verbatim>\<open>GDF_UNSUPPORTED_DTYPE\<close> with nothing changed. The other aggregation tag plays no
  part.
\<close>

theorem second_level_tag:
  "(returned_launches (gdf_group_by_hash B op n igs ia ogs oa sr dev)
      = Some (launches dev @ [GroupbyHash_launch call])
    \<longrightarrow> ctype_of_dtype (if op = count_op then dtype oa else dtype ia)
        = Some (aggregation_type call))
 \<and> (n \<le> 1 \<and> groupby_ctype_of_dtype (dtype kcol) = Some gt
      \<and> ctype_of_dtype (if op = count_op then dtype oa else dtype ia) = Some at
    \<longrightarrow> returned_launches
          (gdf_group_by_hash B op n (kcol # krest) ia (ocol # orest) oa sr dev)
        = Some (launches dev
                @ [GroupbyHash_launch (hash_call_of gt at op kcol ia ocol oa sr)])
      \<and> aggregation_type (hash_call_of gt at op kcol ia ocol oa sr) = at)
 \<and> (n \<le> 1 \<and> groupby_ctype_of_dtype (dtype kcol) = Some gt
      \<and> ctype_of_dtype (if op = count_op then dtype oa else dtype ia) = None
    \<longrightarrow> gdf_group_by_hash B op n (kcol # krest) ia ogs oa sr dev
        = Inr (GDF_UNSUPPORTED_DTYPE, ogs, oa, dev))"
proof (intro conjI impI)
  assume a: "returned_launches (gdf_group_by_hash B op n igs ia ogs oa sr dev)
      = Some (launches dev @ [GroupbyHash_launch call])"
  from returned_launches_Inr [OF a] obtain e ogs' oa' dev'
    where r: "gdf_group_by_hash B op n igs ia ogs oa sr dev = Inr (e, ogs', oa', dev')"
      and l: "launches dev' = launches dev @ [GroupbyHash_launch call]"
    by blast
  from gdf_group_by_hash_Inr [OF r] l
  show "ctype_of_dtype (if op = count_op then dtype oa else dtype ia)
        = Some (aggregation_type call)"
    by (auto simp: hash_call_of_def)
next
  assume h: "n \<le> 1 \<and> groupby_ctype_of_dtype (dtype kcol) = Some gt
      \<and> ctype_of_dtype (if op = count_op then dtype oa else dtype ia) = Some at"
  then have "gdf_group_by_hash B op n (kcol # krest) ia (ocol # orest) oa sr dev
      = dispatched_groupby B gt at op n (kcol # krest) ia (ocol # orest) oa sr dev"
    by (cases "op = count_op") (simp_all add: gdf_group_by_hash_eq)
  then show "returned_launches
          (gdf_group_by_hash B op n (kcol # krest) ia (ocol # orest) oa sr dev)
        = Some (launches dev
                @ [GroupbyHash_launch (hash_call_of gt at op kcol ia ocol oa sr)])"
    by (simp add: dispatched_groupby_eq Let_def)
  show "aggregation_type (hash_call_of gt at op kcol ia ocol oa sr) = at"
    by (simp add: hash_call_of_def)
next
  assume h: "n \<le> 1 \<and> groupby_ctype_of_dtype (dtype kcol) = Some gt
      \<and> ctype_of_dtype (if op = count_op then dtype oa else dtype ia) = None"
  then show "gdf_group_by_hash B op n (kcol # krest) ia ogs oa sr dev
        = Inr (GDF_UNSUPPORTED_DTYPE, ogs, oa, dev)"
    by (cases "op = count_op") (simp_all add: gdf_group_by_hash_eq)
qed

text \<open>
  A SUM over a value column tagged \<^verbatim>\<open>GDF_FLOAT64\<close> is instantiated at \<^verbatim>\<open>double\<close>;
  a COUNT whose value column has an unsupported tag and whose output column is tagged
  \<^verbatim>\<open>GDF_INT64\<close> is instantiated at \<^verbatim>\<open>int64_t\<close>; a SUM over that value column is
  refused.
\<close>

theorem second_level_tag_witness:
  "(1::int) \<le> 1
 \<and> groupby_ctype_of_dtype (dtype (column_at 0 3 GDF_INT32)) = Some int32_t
 \<and> ctype_of_dtype (if sum_op = count_op then dtype (column_at 3 3 GDF_INT32)
                    else dtype (column_at 1 3 GDF_FLOAT64)) = Some double_t
 \<and> returned_launches (gdf_group_by_hash reference_GroupbyHash sum_op 1
      [column_at 0 3 GDF_INT32] (column_at 1 3 GDF_FLOAT64)
      [column_at 2 3 GDF_INT32] (column_at 3 3 GDF_INT32) True test_device)
   = Some (launches test_device @ [GroupbyHash_launch
        (hash_call_of int32_t double_t sum_op (column_at 0 3 GDF_INT32)
           (column_at 1 3 GDF_FLOAT64) (column_at 2 3 GDF_INT32) (column_at 3 3 GDF_INT32)
           True)])
 \<and> ctype_of_dtype (if count_op = count_op then dtype (column_at 3 3 GDF_INT64)
                    else dtype (column_at 1 3 (GDF_OTHER 0))) = Some int64_t
 \<and> returned_launches (gdf_group_by_hash reference_GroupbyHash count_op 1
      [column_at 0 3 GDF_INT32] (column_at 1 3 (GDF_OTHER 0))
      [column_at 2 3 GDF_INT32] (column_at 3 3 GDF_INT64) True test_device)
   = Some (launches test_device @ [GroupbyHash_launch
        (hash_call_of int32_t int64_t count_op (column_at 0 3 GDF_INT32)
           (column_at 1 3 (GDF_OTHER 0)) (column_at 2 3 GDF_INT32)
           (column_at 3 3 GDF_INT64) True)])
 \<and> ctype_of_dtype (if sum_op = count_op then dtype (column_at 3 3 GDF_INT64)
                    else dtype (column_at 1 3 (GDF_OTHER 0))) = None
 \<and> gdf_group_by_hash reference_GroupbyHash sum_op 1
      [column_at 0 3 GDF_INT32] (column_at 1 3 (GDF_OTHER 0))
      [column_at 2 3 GDF_INT32] (column_at 3 3 GDF_INT64) True test_device
   = Inr (GDF_UNSUPPORTED_DTYPE, [column_at 2 3 GDF_INT32], column_at 3 3 GDF_INT64,
          test_device)
 \<and> ctype_of_dtype (dtype (column_at 1 3 GDF_FLOAT64))
   = Some (aggregation_type
        (hash_call_of int32_t double_t sum_op (column_at 0 3 GDF_INT32)
           (column_at 1 3 GDF_FLOAT64) (column_at 2 3 GDF_INT32) (column_at 3 3 GDF_INT32)
           True))"
proof -
  let ?sum_call = "hash_call_of int32_t double_t sum_op (column_at 0 3 GDF_INT32)
           (column_at 1 3 GDF_FLOAT64) (column_at 2 3 GDF_INT32) (column_at 3 3 GDF_INT32)
           True"
  have n: "(1::int) \<le> 1" by simp
  have k: "groupby_ctype_of_dtype (dtype (column_at 0 3 GDF_INT32)) = Some int32_t"
    by (simp add: column_at_def)
  have s: "ctype_of_dtype (if sum_op = count_op then dtype (column_at 3 3 GDF_INT32)
                    else dtype (column_at 1 3 GDF_FLOAT64)) = Some double_t"
    by (simp add: column_at_def)
  have c: "ctype_of_dtype (if count_op = count_op then dtype (column_at 3 3 GDF_INT64)
                    else dtype (column_at 1 3 (GDF_OTHER 0))) = Some int64_t"
    by (simp add: column_at_def)
  have u: "ctype_of_dtype (if sum_op = count_op then dtype (column_at 3 3 GDF_INT64)
                    else dtype (column_at 1 3 (GDF_OTHER 0))) = None"
    by (simp add: column_at_def)
  from n k s second_level_tag [where n = 1 and kcol = "column_at 0 3 GDF_INT32"
      and gt = int32_t and op = sum_op and oa = "column_at 3 3 GDF_INT32"
      and ia = "column_at 1 3 GDF_FLOAT64" and at = double_t and B = reference_GroupbyHash
      and krest = "[]" and ocol = "column_at 2 3 GDF_INT32" and orest = "[]" and sr = True
      and dev = test_device]
  have fs: "returned_launches (gdf_group_by_hash reference_GroupbyHash sum_op 1
      [column_at 0 3 GDF_INT32] (column_at 1 3 GDF_FLOAT64)
      [column_at 2 3 GDF_INT32] (column_at 3 3 GDF_INT32) True test_device)
   = Some (launches test_device @ [GroupbyHash_launch ?sum_call])"
    by blast
  from n k c second_level_tag [where n = 1 and kcol = "column_at 0 3 GDF_INT32"
      and gt = int32_t and op = count_op and oa = "column_at 3 3 GDF_INT64"
      and ia = "column_at 1 3 (GDF_OTHER 0)" and at = int64_t and B = reference_GroupbyHash
      and krest = "[]" and ocol = "column_at 2 3 GDF_INT32" and orest = "[]" and sr = True
      and dev = test_device]
  have fc: "returned_launches (gdf_group_by_hash reference_GroupbyHash count_op 1
      [column_at 0 3 GDF_INT32] (column_at 1 3 (GDF_OTHER 0))
      [column_at 2 3 GDF_INT32] (column_at 3 3 GDF_INT64) True test_device)
   = Some (launches test_device @ [GroupbyHash_launch
        (hash_call_of int32_t int64_t count_op (column_at 0 3 GDF_INT32)
           (column_at 1 3 (GDF_OTHER 0)) (column_at 2 3 GDF_INT32)
           (column_at 3 3 GDF_INT64) True)])"
    by blast
  from n k u second_level_tag [where n = 1 and kcol = "column_at 0 3 GDF_INT32"
      and gt = int32_t and op = sum_op and oa = "column_at 3 3 GDF_INT64"
      and ia = "column_at 1 3 (GDF_OTHER 0)" and B = reference_GroupbyHash
      and krest = "[]" and ogs = "[column_at 2 3 GDF_INT32]" and sr = True
      and dev = test_device]
  have fu: "gdf_group_by_hash reference_GroupbyHash sum_op 1
      [column_at 0 3 GDF_INT32] (column_at 1 3 (GDF_OTHER 0))
      [column_at 2 3 GDF_INT32] (column_at 3 3 GDF_INT64) True test_device
   = Inr (GDF_UNSUPPORTED_DTYPE, [column_at 2 3 GDF_INT32], column_at 3 3 GDF_INT64,
          test_device)"
    by blast
  from fs second_level_tag [where B = reference_GroupbyHash and op = sum_op and n = 1
      and igs = "[column_at 0 3 GDF_INT32]" and ia = "column_at 1 3 GDF_FLOAT64"
      and ogs = "[column_at 2 3 GDF_INT32]" and oa = "column_at 3 3 GDF_INT32"
      and sr = True and dev = test_device and call = ?sum_call]
  have b: "ctype_of_dtype (dtype (column_at 1 3 GDF_FLOAT64))
           = Some (aggregation_type ?sum_call)"
    by simp
  from n k s fs c fc u fu b show ?thesis by blast
qed




text \<open>
  Claim C10. \<^verbatim>\<open>gdf_group_by_hash\<close> returns \<^verbatim>\<open>GDF_GROUPBY_TOO_MANY_COLUMNS\<close> exactly when
  \<open>ncols\<close> exceeds 1. With \<open>ncols = 0\<close> it goes into \<^verbatim>\<open>dispatch_groupby_type\<close> and does
  what it does for \<open>ncols = 1\<close>: the first entry of the group-by array is read whatever
  \<open>ncols\<close> says, and an array without a first entry is read out of bounds.
\<close>

theorem zero_columns_not_rejected:
  "((\<exists>ogs' oa' dev'. gdf_group_by_hash B op n igs ia ogs oa sr dev
        = Inr (GDF_GROUPBY_TOO_MANY_COLUMNS, ogs', oa', dev')) \<longleftrightarrow> 1 < n)
 \<and> gdf_group_by_hash B op 0 igs ia ogs oa sr dev
     = dispatch_groupby_type B op 0 igs ia ogs oa sr dev
 \<and> gdf_group_by_hash B op 0 igs ia ogs oa sr dev
     = gdf_group_by_hash B op 1 igs ia ogs oa sr dev
 \<and> gdf_group_by_hash B op 0 [] ia ogs oa sr dev = Inl OutOfBounds"
proof (intro conjI)
  show "(\<exists>ogs' oa' dev'. gdf_group_by_hash B op n igs ia ogs oa sr dev
        = Inr (GDF_GROUPBY_TOO_MANY_COLUMNS, ogs', oa', dev')) \<longleftrightarrow> 1 < n"
  proof
    assume "\<exists>ogs' oa' dev'. gdf_group_by_hash B op n igs ia ogs oa sr dev
        = Inr (GDF_GROUPBY_TOO_MANY_COLUMNS, ogs', oa', dev')"
    then obtain ogs' oa' dev' where "gdf_group_by_hash B op n igs ia ogs oa sr dev
        = Inr (GDF_GROUPBY_TOO_MANY_COLUMNS, ogs', oa', dev')" by blast
    from gdf_group_by_hash_Inr [OF this] show "1 < n" by (auto split: if_splits)
  next
    assume "1 < n"
    then show "\<exists>ogs' oa' dev'. gdf_group_by_hash B op n igs ia ogs oa sr dev
        = Inr (GDF_GROUPBY_TOO_MANY_COLUMNS, ogs', oa', dev')"
      by (simp add: gdf_group_by_hash_def)
  qed
  show "gdf_group_by_hash B op 0 igs ia ogs oa sr dev
     = dispatch_groupby_type B op 0 igs ia ogs oa sr dev"
    by (simp add: gdf_group_by_hash_def)
  show "gdf_group_by_hash B op 0 igs ia ogs oa sr dev
     = gdf_group_by_hash B op 1 igs ia ogs oa sr dev"
    by (simp add: gdf_group_by_hash_eq dispatched_groupby_ncols [of _ _ _ _ 0]
             split: list.split option.split)
  show "gdf_group_by_hash B op 0 [] ia ogs oa sr dev = Inl OutOfBounds"
    by (simp add: gdf_group_by_hash_eq)
qed

text \<open>With \<open>ncols = 0\<close> the request of \<section>8 is aggregated; an empty array faults.\<close>

theorem zero_columns_not_rejected_witness:
  "returned_code (gdf_group_by_hash reference_GroupbyHash sum_op 0
      [column_at 0 3 GDF_INT32] (column_at 1 3 GDF_INT32)
      [column_at 2 3 GDF_INT32] (column_at 3 3 GDF_INT32) True test_device)
   = Some GDF_SUCCESS
 \<and> gdf_group_by_hash reference_GroupbyHash sum_op 0
      [column_at 0 3 GDF_INT32] (column_at 1 3 GDF_INT32)
      [column_at 2 3 GDF_INT32] (column_at 3 3 GDF_INT32) True test_device
   = gdf_group_by_hash reference_GroupbyHash sum_op 1
      [column_at 0 3 GDF_INT32] (column_at 1 3 GDF_INT32)
      [column_at 2 3 GDF_INT32] (column_at 3 3 GDF_INT32) True test_device
 \<and> raised (gdf_group_by_hash reference_GroupbyHash sum_op 0
      [] (column_at 1 3 GDF_INT32)
      [column_at 2 3 GDF_INT32] (column_at 3 3 GDF_INT32) True test_device)
   = Some OutOfBounds"
proof -
  have s: "returned_code (gdf_group_by_hash reference_GroupbyHash sum_op 1
      [column_at 0 3 GDF_INT32] (column_at 1 3 GDF_INT32)
      [column_at 2 3 GDF_INT32] (column_at 3 3 GDF_INT32) True test_device)
   = Some GDF_SUCCESS"
    by code_simp
  have e: "gdf_group_by_hash reference_GroupbyHash sum_op 0
      [column_at 0 3 GDF_INT32] (column_at 1 3 GDF_INT32)
      [column_at 2 3 GDF_INT32] (column_at 3 3 GDF_INT32) True test_device
   = gdf_group_by_hash reference_GroupbyHash sum_op 1
      [column_at 0 3 GDF_INT32] (column_at 1 3 GDF_INT32)
      [column_at 2 3 GDF_INT32] (column_at 3 3 GDF_INT32) True test_device"
    using zero_columns_not_rejected [of reference_GroupbyHash sum_op 0
      "[column_at 0 3 GDF_INT32]" "column_at 1 3 GDF_INT32"
      "[column_at 2 3 GDF_INT32]" "column_at 3 3 GDF_INT32" True test_device]
    by blast
  have f: "gdf_group_by_hash reference_GroupbyHash sum_op 0
      [] (column_at 1 3 GDF_INT32)
      [column_at 2 3 GDF_INT32] (column_at 3 3 GDF_INT32) True test_device
   = Inl OutOfBounds"
    using zero_columns_not_rejected [of reference_GroupbyHash sum_op 0
      "[]" "column_at 1 3 GDF_INT32"
      "[column_at 2 3 GDF_INT32]" "column_at 3 3 GDF_INT32" True test_device]
    by blast
  from s e f show ?thesis by simp
qed

lemma gdf_group_by_hash_avg_eq:
  "gdf_group_by_hash_avg nd B fp n igs ia ogs oa dev =
   (if \<not> nd \<and> n \<noteq> 1 then Inl AssertionFailure
    else case ctype_of_dtype (dtype ia) of
           None \<Rightarrow> Inr (GDF_UNSUPPORTED_DTYPE, ogs, oa, dev)
         | Some st \<Rightarrow> multi_pass_avg B fp st n igs ia ogs oa dev)"
  by (cases "dtype ia") (simp_all add: gdf_group_by_hash_avg_def)


section \<open>Column count and unsupported tags\<close>








section \<open>The two-pass average\<close>

lemma create_gdf_column_eq:
  "create_gdf_column ct k dev
   = Inr (fresh_column (dtype_of_ctype ct) k dev, snd (cudaMalloc k dev))"
  by (cases ct) (simp_all add: create_gdf_column_def cudaMalloc_def fresh_column_def)

lemma cudaMalloc_fields [simp]:
  "launches (snd (cudaMalloc k dev)) = launches dev"
  "allocated (snd (cudaMalloc k dev)) = allocated dev @ [brk dev]"
  "freed (snd (cudaMalloc k dev)) = freed dev"
  "brk (snd (cudaMalloc k dev)) = Suc (brk dev)"
  by (simp_all add: cudaMalloc_def)

lemma cudaFree_fields [simp]:
  "launches (cudaFree p dev) = launches dev"
  "allocated (cudaFree p dev) = allocated dev"
  "freed (cudaFree p dev) = freed dev @ [p]"
  "brk (cudaFree p dev) = brk dev"
  "mem (cudaFree p dev) = mem dev"
  by (simp_all add: cudaFree_def)

lemma multi_pass_avg_eq:
  "multi_pass_avg B fp st n igs ia ogs oa dev =
   (case gdf_group_by_hash B count_op n igs ia ogs
           (fresh_column GDF_INT64 (size_field oa) dev) True
           (snd (cudaMalloc (size_field oa) dev)) of
      Inl e \<Rightarrow> Inl e
    | Inr (e1, ogs1, cnt, dev2) \<Rightarrow>
     (case gdf_group_by_hash B sum_op n igs ia ogs1
             (fresh_column (dtype_of_ctype st) (size_field oa) dev2) True
             (snd (cudaMalloc (size_field oa) dev2)) of
        Inl e \<Rightarrow> Inl e
      | Inr (e2, ogs2, sm, dev4) \<Rightarrow>
       (case ctype_of_dtype (dtype oa) of
          None \<Rightarrow> Inr (GDF_UNSUPPORTED_DTYPE, ogs2, oa, dev4)
        | Some at \<Rightarrow>
         (case compute_average fp st at oa cnt sm dev4 of
            Inl e \<Rightarrow> Inl e
          | Inr (avg, dev5) \<Rightarrow>
              Inr (GDF_SUCCESS, ogs2, avg,
                   cudaFree (data sm) (cudaFree (data cnt) dev5))))))"
  by (cases "dtype oa")
     (simp_all add: multi_pass_avg_def create_gdf_column_eq Let_def
        split: sum.split prod.split)

lemma compute_average_Inr:
  assumes "compute_average fp st at avg_column cnt sm dev = Inr (avg, dev')"
  shows "avg = avg_column \<lparr> size_field := size_field cnt \<rparr>"
    and "launches dev' = launches dev @ [transform_launch st at (size_field cnt)]"
    and "allocated dev' = allocated dev" and "freed dev' = freed dev"
  using assms
  by (auto simp: compute_average_def Let_def split: if_splits sum.splits)

lemma multi_pass_avg_count_size:
  assumes r: "multi_pass_avg B fp st n igs ia ogs oa dev = Inr (GDF_SUCCESS, ogs', oa', dev')"
    and l: "launches dev' = launches dev @ GroupbyHash_launch call # ls"
    and b: "fst (B call (snd (cudaMalloc (size_field oa) dev))) = cudaSuccess"
  shows "oa' = oa \<lparr> size_field := fst (snd (B call (snd (cudaMalloc (size_field oa) dev)))) \<rparr>"
proof -
  let ?dev1 = "snd (cudaMalloc (size_field oa) dev)"
  let ?col0 = "fresh_column GDF_INT64 (size_field oa) dev"
  from r obtain e1 ogs1 cnt dev2 where
    g1: "gdf_group_by_hash B count_op n igs ia ogs ?col0 True ?dev1 = Inr (e1, ogs1, cnt, dev2)"
    by (auto simp: multi_pass_avg_eq split: sum.splits)
  let ?dev3 = "snd (cudaMalloc (size_field oa) dev2)"
  let ?sum0 = "fresh_column (dtype_of_ctype st) (size_field oa) dev2"
  from r g1 obtain e2 ogs2 sm dev4 where
    g2: "gdf_group_by_hash B sum_op n igs ia ogs1 ?sum0 True ?dev3 = Inr (e2, ogs2, sm, dev4)"
    by (auto simp: multi_pass_avg_eq split: sum.splits)
  from r g1 g2 obtain at dev5 where
    ca: "compute_average fp st at oa cnt sm dev4 = Inr (oa', dev5)"
    and d: "dev' = cudaFree (data sm) (cudaFree (data cnt) dev5)"
    by (auto simp: multi_pass_avg_eq split: sum.splits option.splits)
  have avg: "oa' = oa \<lparr> size_field := size_field cnt \<rparr>"
    and l5: "launches dev' = launches dev4 @ [transform_launch st at (size_field cnt)]"
    using compute_average_Inr(1,2) [OF ca] d by simp_all
  from gdf_group_by_hash_launches [OF g2] obtain ls2
    where l4: "launches dev4 = launches dev2 @ ls2" by auto
  have col0: "ctype_of_dtype (dtype ?col0) = Some int64_t"
    by (simp add: fresh_column_def)
  from gdf_group_by_hash_Inr [OF g1]
  consider (many) "1 < n" "dev2 = ?dev1"
    | (key) "n \<le> 1" "dev2 = ?dev1" "ogs1 = ogs"
        "\<exists>in0 irest. igs = in0 # irest \<and> groupby_ctype_of_dtype (dtype in0) = None"
    | (ran) c1 where "dev2 = after_call B c1 ?dev1"
        "if fst (B c1 ?dev1) = cudaSuccess
         then cnt = ?col0 \<lparr> size_field := fst (snd (B c1 ?dev1)) \<rparr>
         else cnt = ?col0"
    using col0 by (elim disjE) (auto split: if_splits)
  then show ?thesis
  proof cases
    case many
    with gdf_group_by_hash_Inr [OF g2] have "dev4 = ?dev3" by auto
    with many l5 l show ?thesis by simp
  next
    case key
    with gdf_group_by_hash_Inr [OF g2] have "dev4 = ?dev3" by auto
    with key l5 l show ?thesis by simp
  next
    case ran
    with l4 l5 l have "call = c1" by simp
    with ran(2) b have "cnt = ?col0 \<lparr> size_field := fst (snd (B call ?dev1)) \<rparr>" by simp
    with avg show ?thesis by simp
  qed
qed


text \<open>
  What holds of the sizes. When \<^verbatim>\<open>gdf_group_by_hash\<close> returns \<^verbatim>\<open>GDF_SUCCESS\<close>, it
  made one call of the primitive, which succeeded, and the size members of the first
  output group-by column and of the output aggregation column are both the count that call
  reported. When \<^verbatim>\<open>gdf_group_by_hash_avg\<close> returns \<^verbatim>\<open>GDF_SUCCESS\<close> and its COUNT
  pass (its first launch, made on the device as it is after the COUNT buffer was
  allocated) succeeded, the size member of the output aggregation column is the count the
  COUNT pass reported.
\<close>

theorem success_sets_sizes:
  "(returned_code (gdf_group_by_hash B op n igs ia ogs oa sr dev) = Some GDF_SUCCESS
    \<longrightarrow> (\<exists>call out0 orest.
           returned_launches (gdf_group_by_hash B op n igs ia ogs oa sr dev)
             = Some (launches dev @ [GroupbyHash_launch call])
         \<and> fst (B call dev) = cudaSuccess
         \<and> ogs = out0 # orest
         \<and> returned_groupby_columns (gdf_group_by_hash B op n igs ia ogs oa sr dev)
             = Some (out0 \<lparr> size_field := fst (snd (B call dev)) \<rparr> # orest)
         \<and> returned_aggregation_column (gdf_group_by_hash B op n igs ia ogs oa sr dev)
             = Some (oa \<lparr> size_field := fst (snd (B call dev)) \<rparr>)))
 \<and> (returned_code (gdf_group_by_hash_avg nd B fp n igs ia ogs oa dev) = Some GDF_SUCCESS
      \<and> returned_launches (gdf_group_by_hash_avg nd B fp n igs ia ogs oa dev)
          = Some (launches dev @ GroupbyHash_launch count_call # ls)
      \<and> fst (B count_call (snd (cudaMalloc (size_field oa) dev))) = cudaSuccess
    \<longrightarrow> returned_aggregation_column (gdf_group_by_hash_avg nd B fp n igs ia ogs oa dev)
          = Some (oa \<lparr> size_field :=
                       fst (snd (B count_call (snd (cudaMalloc (size_field oa) dev)))) \<rparr>))"
proof (intro conjI impI)
  assume "returned_code (gdf_group_by_hash B op n igs ia ogs oa sr dev) = Some GDF_SUCCESS"
  from returned_code_Inr [OF this] obtain ogs' oa' dev' where
    r: "gdf_group_by_hash B op n igs ia ogs oa sr dev = Inr (GDF_SUCCESS, ogs', oa', dev')"
    by blast
  from gdf_group_by_hash_Inr [OF r]
  obtain out0 orest call where
    c: "ogs = out0 # orest" "dev' = after_call B call dev"
       "fst (B call dev) = cudaSuccess"
       "ogs' = out0 \<lparr> size_field := fst (snd (B call dev)) \<rparr> # orest"
       "oa' = oa \<lparr> size_field := fst (snd (B call dev)) \<rparr>"
    by (auto split: if_splits)
  show "\<exists>call out0 orest.
           returned_launches (gdf_group_by_hash B op n igs ia ogs oa sr dev)
             = Some (launches dev @ [GroupbyHash_launch call])
         \<and> fst (B call dev) = cudaSuccess
         \<and> ogs = out0 # orest
         \<and> returned_groupby_columns (gdf_group_by_hash B op n igs ia ogs oa sr dev)
             = Some (out0 \<lparr> size_field := fst (snd (B call dev)) \<rparr> # orest)
         \<and> returned_aggregation_column (gdf_group_by_hash B op n igs ia ogs oa sr dev)
             = Some (oa \<lparr> size_field := fst (snd (B call dev)) \<rparr>)"
    unfolding r using c
    by (intro exI [of _ call] exI [of _ out0] exI [of _ orest]) simp
next
  assume a: "returned_code (gdf_group_by_hash_avg nd B fp n igs ia ogs oa dev) = Some GDF_SUCCESS
      \<and> returned_launches (gdf_group_by_hash_avg nd B fp n igs ia ogs oa dev)
          = Some (launches dev @ GroupbyHash_launch count_call # ls)
      \<and> fst (B count_call (snd (cudaMalloc (size_field oa) dev))) = cudaSuccess"
  from returned_code_Inr [OF conjunct1 [OF a]] obtain ogs' oa' dev' where
    r: "gdf_group_by_hash_avg nd B fp n igs ia ogs oa dev = Inr (GDF_SUCCESS, ogs', oa', dev')"
    by blast
  with a have l: "launches dev' = launches dev @ GroupbyHash_launch count_call # ls"
    by simp
  from r obtain st where
    m: "multi_pass_avg B fp st n igs ia ogs oa dev = Inr (GDF_SUCCESS, ogs', oa', dev')"
    by (auto simp: gdf_group_by_hash_avg_eq split: if_splits option.splits)
  from multi_pass_avg_count_size [OF m l] a
  have "oa' = oa \<lparr> size_field :=
                 fst (snd (B count_call (snd (cudaMalloc (size_field oa) dev)))) \<rparr>"
    by blast
  with r show "returned_aggregation_column (gdf_group_by_hash_avg nd B fp n igs ia ogs oa dev)
          = Some (oa \<lparr> size_field :=
                       fst (snd (B count_call (snd (cudaMalloc (size_field oa) dev)))) \<rparr>)"
    by simp
qed

text \<open>The request of \<section>8 on the reference backend: two groups.\<close>

theorem success_sets_sizes_witness:
  "returned_code (gdf_group_by_hash_avg False reference_GroupbyHash fp_stub 1
      [column_at 0 3 GDF_INT32] (column_at 1 3 GDF_INT32)
      [column_at 2 3 GDF_INT32] (column_at 3 3 GDF_INT32) test_device) = Some GDF_SUCCESS
 \<and> returned_launches (gdf_group_by_hash_avg False reference_GroupbyHash fp_stub 1
      [column_at 0 3 GDF_INT32] (column_at 1 3 GDF_INT32)
      [column_at 2 3 GDF_INT32] (column_at 3 3 GDF_INT32) test_device)
   = Some (launches test_device
           @ GroupbyHash_launch
               (hash_call_of int32_t int64_t count_op (column_at 0 3 GDF_INT32)
                  (column_at 1 3 GDF_INT32) (column_at 2 3 GDF_INT32)
                  (column_at 4 3 GDF_INT64) True)
           # [GroupbyHash_launch
               (hash_call_of int32_t int32_t sum_op (column_at 0 3 GDF_INT32)
                  (column_at 1 3 GDF_INT32) (column_at 2 3 GDF_INT32)
                  (column_at 5 3 GDF_INT32) True),
              transform_launch int32_t int32_t 2])
 \<and> fst (reference_GroupbyHash
          (hash_call_of int32_t int64_t count_op (column_at 0 3 GDF_INT32)
             (column_at 1 3 GDF_INT32) (column_at 2 3 GDF_INT32)
             (column_at 4 3 GDF_INT64) True)
          (snd (cudaMalloc (size_field (column_at 3 3 GDF_INT32)) test_device)))
   = cudaSuccess
 \<and> returned_aggregation_column (gdf_group_by_hash_avg False reference_GroupbyHash fp_stub 1
      [column_at 0 3 GDF_INT32] (column_at 1 3 GDF_INT32)
      [column_at 2 3 GDF_INT32] (column_at 3 3 GDF_INT32) test_device)
   = Some (column_at 3 2 GDF_INT32)
 \<and> returned_code (gdf_group_by_hash reference_GroupbyHash sum_op 1
      [column_at 0 3 GDF_INT32] (column_at 1 3 GDF_INT32)
      [column_at 2 3 GDF_INT32] (column_at 3 3 GDF_INT32) True test_device)
   = Some GDF_SUCCESS
 \<and> (\<exists>call out0 orest.
       returned_launches (gdf_group_by_hash reference_GroupbyHash sum_op 1
          [column_at 0 3 GDF_INT32] (column_at 1 3 GDF_INT32)
          [column_at 2 3 GDF_INT32] (column_at 3 3 GDF_INT32) True test_device)
         = Some (launches test_device @ [GroupbyHash_launch call])
     \<and> fst (reference_GroupbyHash call test_device) = cudaSuccess
     \<and> [column_at 2 3 GDF_INT32] = out0 # orest
     \<and> returned_groupby_columns (gdf_group_by_hash reference_GroupbyHash sum_op 1
          [column_at 0 3 GDF_INT32] (column_at 1 3 GDF_INT32)
          [column_at 2 3 GDF_INT32] (column_at 3 3 GDF_INT32) True test_device)
         = Some (out0 \<lparr> size_field := fst (snd (reference_GroupbyHash call test_device)) \<rparr>
                 # orest)
     \<and> returned_aggregation_column (gdf_group_by_hash reference_GroupbyHash sum_op 1
          [column_at 0 3 GDF_INT32] (column_at 1 3 GDF_INT32)
          [column_at 2 3 GDF_INT32] (column_at 3 3 GDF_INT32) True test_device)
         = Some (column_at 3 3 GDF_INT32
                   \<lparr> size_field := fst (snd (reference_GroupbyHash call test_device)) \<rparr>))"
proof -
  let ?cc = "hash_call_of int32_t int64_t count_op (column_at 0 3 GDF_INT32)
                  (column_at 1 3 GDF_INT32) (column_at 2 3 GDF_INT32)
                  (column_at 4 3 GDF_INT64) True"
  let ?ls = "[GroupbyHash_launch
               (hash_call_of int32_t int32_t sum_op (column_at 0 3 GDF_INT32)
                  (column_at 1 3 GDF_INT32) (column_at 2 3 GDF_INT32)
                  (column_at 5 3 GDF_INT32) True),
              transform_launch int32_t int32_t 2]"
  let ?dev1 = "snd (cudaMalloc (size_field (column_at 3 3 GDF_INT32)) test_device)"
  have h1: "returned_code (gdf_group_by_hash_avg False reference_GroupbyHash fp_stub 1
      [column_at 0 3 GDF_INT32] (column_at 1 3 GDF_INT32)
      [column_at 2 3 GDF_INT32] (column_at 3 3 GDF_INT32) test_device) = Some GDF_SUCCESS"
    by code_simp
  have h2: "returned_launches (gdf_group_by_hash_avg False reference_GroupbyHash fp_stub 1
      [column_at 0 3 GDF_INT32] (column_at 1 3 GDF_INT32)
      [column_at 2 3 GDF_INT32] (column_at 3 3 GDF_INT32) test_device)
   = Some (launches test_device @ GroupbyHash_launch ?cc # ?ls)"
    by code_simp
  have h3: "fst (reference_GroupbyHash ?cc ?dev1) = cudaSuccess"
    by code_simp
  have n: "column_at 3 3 GDF_INT32
             \<lparr> size_field := fst (snd (reference_GroupbyHash ?cc ?dev1)) \<rparr>
           = column_at 3 2 GDF_INT32"
    by code_simp
  have g: "returned_code (gdf_group_by_hash reference_GroupbyHash sum_op 1
      [column_at 0 3 GDF_INT32] (column_at 1 3 GDF_INT32)
      [column_at 2 3 GDF_INT32] (column_at 3 3 GDF_INT32) True test_device)
   = Some GDF_SUCCESS"
    by code_simp
  note t = success_sets_sizes [where B = reference_GroupbyHash and op = sum_op and n = 1
      and igs = "[column_at 0 3 GDF_INT32]" and ia = "column_at 1 3 GDF_INT32"
      and ogs = "[column_at 2 3 GDF_INT32]" and oa = "column_at 3 3 GDF_INT32"
      and sr = True and dev = test_device and nd = False and fp = fp_stub
      and count_call = ?cc and ls = ?ls]
  from t h1 h2 h3 have
    "returned_aggregation_column (gdf_group_by_hash_avg False reference_GroupbyHash fp_stub 1
      [column_at 0 3 GDF_INT32] (column_at 1 3 GDF_INT32)
      [column_at 2 3 GDF_INT32] (column_at 3 3 GDF_INT32) test_device)
     = Some (column_at 3 3 GDF_INT32
               \<lparr> size_field := fst (snd (reference_GroupbyHash ?cc ?dev1)) \<rparr>)"
    by blast
  with n have a: "returned_aggregation_column (gdf_group_by_hash_avg False
      reference_GroupbyHash fp_stub 1
      [column_at 0 3 GDF_INT32] (column_at 1 3 GDF_INT32)
      [column_at 2 3 GDF_INT32] (column_at 3 3 GDF_INT32) test_device)
     = Some (column_at 3 2 GDF_INT32)"
    by simp
  from t g have e: "\<exists>call out0 orest.
       returned_launches (gdf_group_by_hash reference_GroupbyHash sum_op 1
          [column_at 0 3 GDF_INT32] (column_at 1 3 GDF_INT32)
          [column_at 2 3 GDF_INT32] (column_at 3 3 GDF_INT32) True test_device)
         = Some (launches test_device @ [GroupbyHash_launch call])
     \<and> fst (reference_GroupbyHash call test_device) = cudaSuccess
     \<and> [column_at 2 3 GDF_INT32] = out0 # orest
     \<and> returned_groupby_columns (gdf_group_by_hash reference_GroupbyHash sum_op 1
          [column_at 0 3 GDF_INT32] (column_at 1 3 GDF_INT32)
          [column_at 2 3 GDF_INT32] (column_at 3 3 GDF_INT32) True test_device)
         = Some (out0 \<lparr> size_field := fst (snd (reference_GroupbyHash call test_device)) \<rparr>
                 # orest)
     \<and> returned_aggregation_column (gdf_group_by_hash reference_GroupbyHash sum_op 1
          [column_at 0 3 GDF_INT32] (column_at 1 3 GDF_INT32)
          [column_at 2 3 GDF_INT32] (column_at 3 3 GDF_INT32) True test_device)
         = Some (column_at 3 3 GDF_INT32
                   \<lparr> size_field := fst (snd (reference_GroupbyHash call test_device)) \<rparr>)"
    by blast
  from h1 h2 h3 a g e show ?thesis by blast
qed

text \<open>
  Claim C1 does not hold of the code: \<^verbatim>\<open>multi_pass_avg\<close> discards what the two calls of
  \<^verbatim>\<open>gdf_group_by_hash\<close> return. On a backend whose COUNT call fails, and on one whose
  SUM call fails, the composite call returns \<^verbatim>\<open>GDF_SUCCESS\<close>; on no input at all does
  it return \<^verbatim>\<open>GDF_CUDA_ERROR\<close>.
\<close>

theorem avg_swallows_backend_failure:
  "returned_code (gdf_group_by_hash_avg False first_call_fails fp_stub 1
      [column_at 0 3 GDF_INT32] (column_at 1 3 GDF_INT32)
      [column_at 2 3 GDF_INT32] (column_at 3 3 GDF_INT32) test_device) = Some GDF_SUCCESS
 \<and> returned_code (gdf_group_by_hash_avg False second_call_fails fp_stub 1
      [column_at 0 3 GDF_INT32] (column_at 1 3 GDF_INT32)
      [column_at 2 3 GDF_INT32] (column_at 3 3 GDF_INT32) test_device) = Some GDF_SUCCESS
 \<and> returned_code (gdf_group_by_hash_avg nd B fp n igs ia ogs oa dev) \<noteq> Some GDF_CUDA_ERROR"
proof (intro conjI)
  show "returned_code (gdf_group_by_hash_avg False first_call_fails fp_stub 1
      [column_at 0 3 GDF_INT32] (column_at 1 3 GDF_INT32)
      [column_at 2 3 GDF_INT32] (column_at 3 3 GDF_INT32) test_device) = Some GDF_SUCCESS"
    by code_simp
  show "returned_code (gdf_group_by_hash_avg False second_call_fails fp_stub 1
      [column_at 0 3 GDF_INT32] (column_at 1 3 GDF_INT32)
      [column_at 2 3 GDF_INT32] (column_at 3 3 GDF_INT32) test_device) = Some GDF_SUCCESS"
    by code_simp
  show "returned_code (gdf_group_by_hash_avg nd B fp n igs ia ogs oa dev) \<noteq> Some GDF_CUDA_ERROR"
    by (auto simp: gdf_group_by_hash_avg_eq multi_pass_avg_eq returned_code_def
             split: sum.splits option.splits)
qed

text \<open>
  Claim C2 does not hold of the code: when the output column's tag is none of the six,
  \<^verbatim>\<open>multi_pass_avg\<close> returns from the default branch of its switch, after both
  allocations and before the two calls of \<^verbatim>\<open>cudaFree\<close>. Two buffers are allocated, none
  is freed.
\<close>

theorem avg_unsupported_output_leaks:
  "returned_code (gdf_group_by_hash_avg False reference_GroupbyHash fp_stub 1
      [column_at 0 3 GDF_INT32] (column_at 1 3 GDF_INT32)
      [column_at 2 3 GDF_INT32] (column_at 3 3 (GDF_OTHER 0)) test_device)
   = Some GDF_UNSUPPORTED_DTYPE
 \<and> returned_allocated (gdf_group_by_hash_avg False reference_GroupbyHash
      fp_stub 1 [column_at 0 3 GDF_INT32] (column_at 1 3 GDF_INT32)
      [column_at 2 3 GDF_INT32] (column_at 3 3 (GDF_OTHER 0)) test_device) = Some [4, 5]
 \<and> returned_freed (gdf_group_by_hash_avg False reference_GroupbyHash
      fp_stub 1 [column_at 0 3 GDF_INT32] (column_at 1 3 GDF_INT32)
      [column_at 2 3 GDF_INT32] (column_at 3 3 (GDF_OTHER 0)) test_device) = Some []"
  by code_simp

text \<open>
  Claim C5 does not hold of the code: the lambda divides by the count converted to the
  average type. One group of 256 rows has the count 256, which is 0 as an \<^verbatim>\<open>int8_t\<close>:
  with an output column tagged \<^verbatim>\<open>GDF_INT8\<close> the division is a division by zero, although
  the count is at least 1.
\<close>

theorem avg_narrow_count_divides_by_zero:
  "raised (gdf_group_by_hash_avg False reference_GroupbyHash fp_stub 1
      [column_at 0 256 GDF_INT32] (column_at 1 256 GDF_INT64)
      [column_at 2 256 GDF_INT32] (column_at 3 256 GDF_INT8) wide_group_device)
   = Some DivisionByZero"
  by code_simp

text \<open>
  Claim C7 does not hold of the code for \<^verbatim>\<open>gdf_group_by_hash_avg\<close>: the call can return
  \<^verbatim>\<open>GDF_SUCCESS\<close> without the output aggregation column's size being a group count.
  When the COUNT pass fails and the SUM pass finds two groups, the call returns
  \<^verbatim>\<open>GDF_SUCCESS\<close>, the output group-by column has size 2, and the output aggregation
  column keeps its capacity 3 as size. When the key column's tag is none of the six, no
  pass reaches the primitive, and the call still returns \<^verbatim>\<open>GDF_SUCCESS\<close> with the size
  3. Both come from the discarded return values of the two passes.
\<close>

theorem avg_size_not_group_count:
  "returned_code (gdf_group_by_hash_avg False first_call_fails fp_stub 1
      [column_at 0 3 GDF_INT32] (column_at 1 3 GDF_INT32)
      [column_at 2 3 GDF_INT32] (column_at 3 3 GDF_INT32) test_device) = Some GDF_SUCCESS
 \<and> returned_aggregation_column (gdf_group_by_hash_avg False first_call_fails fp_stub 1
      [column_at 0 3 GDF_INT32] (column_at 1 3 GDF_INT32)
      [column_at 2 3 GDF_INT32] (column_at 3 3 GDF_INT32) test_device)
   = Some (column_at 3 3 GDF_INT32)
 \<and> returned_groupby_columns (gdf_group_by_hash_avg False first_call_fails fp_stub 1
      [column_at 0 3 GDF_INT32] (column_at 1 3 GDF_INT32)
      [column_at 2 3 GDF_INT32] (column_at 3 3 GDF_INT32) test_device)
   = Some [column_at 2 2 GDF_INT32]
 \<and> returned_code (gdf_group_by_hash_avg False reference_GroupbyHash fp_stub 1
      [column_at 0 3 (GDF_OTHER 0)] (column_at 1 3 GDF_INT32)
      [column_at 2 3 GDF_INT32] (column_at 3 3 GDF_INT32) test_device) = Some GDF_SUCCESS
 \<and> returned_aggregation_column (gdf_group_by_hash_avg False reference_GroupbyHash fp_stub 1
      [column_at 0 3 (GDF_OTHER 0)] (column_at 1 3 GDF_INT32)
      [column_at 2 3 GDF_INT32] (column_at 3 3 GDF_INT32) test_device)
   = Some (column_at 3 3 GDF_INT32)
 \<and> returned_launches (gdf_group_by_hash_avg False reference_GroupbyHash fp_stub 1
      [column_at 0 3 (GDF_OTHER 0)] (column_at 1 3 GDF_INT32)
      [column_at 2 3 GDF_INT32] (column_at 3 3 GDF_INT32) test_device)
   = Some [transform_launch int32_t int32_t 3]"
  by code_simp

end
